theory Spec2Isabelle
  imports Main
begin

section \<open>Python values\<close>

text \<open>
  The module \<^verbatim>\<open>setting/setting.py\<close> is dynamically typed: a setting is handed any
  Python value and tests its type at run time. The values of the model are those of the
  types the module mentions: \<^verbatim>\<open>None\<close>, \<^verbatim>\<open>bool\<close>, \<^verbatim>\<open>int\<close>, \<^verbatim>\<open>float\<close> and \<^verbatim>\<open>str\<close>.
  Values of other types (lists, tuples, instances) are outside the model.

  Floating-point numbers are kept abstract: the type \<open>'f\<close> stands for Python's
  \<^verbatim>\<open>float\<close>, and what the interpreter does with a float is a parameter (see
  \<open>builtins\<close> below). A string is a byte string, as \<^verbatim>\<open>str\<close> is in the Python 2 the
  module is written in. An integer is any value of type \<^verbatim>\<open>int\<close>; the module does no
  arithmetic on it, and the model puts no bound on it.
\<close>

datatype 'f pyval = PNone | PBool bool | PInt int | PFloat 'f | PStr string

text \<open>
  The only exception class the module defines and raises is \<^verbatim>\<open>InvalidType\<close>.
  \<^verbatim>\<open>AttributeError\<close> is what Python raises when \<^verbatim>\<open>self.val\<close> is read before the
  first successful \<^verbatim>\<open>set\<close> has assigned it, and \<^verbatim>\<open>OverflowError\<close> what
  \<^verbatim>\<open>float(n)\<close> raises for an integer too large for a float. The module catches
  neither.
\<close>

datatype error = InvalidType | AttributeError | OverflowError

text \<open>
  What the module takes from outside its own text: the interpreter's treatment of
  floats, and the predicate \<^verbatim>\<open>utils.isDist\<close> of a sibling module.
  \<^item> \<open>float_of_int n\<close> is \<^verbatim>\<open>float(n)\<close> for \<open>n\<close> of type \<^verbatim>\<open>int\<close>, \<open>None\<close> when
    the integer is too large for a float and \<^verbatim>\<open>OverflowError\<close> is raised (where
    \<^verbatim>\<open>int\<close> is a machine integer and anything larger a \<^verbatim>\<open>long\<close>, such a value is
    not of type \<^verbatim>\<open>int\<close> in the first place and is not stored either);
  \<^item> \<open>float_of_str s\<close> is \<^verbatim>\<open>float(s)\<close> for a string, \<open>None\<close> when it raises
    \<^verbatim>\<open>ValueError\<close>;
  \<^item> \<open>str_of_float x\<close> is \<^verbatim>\<open>str(x)\<close>;
  \<^item> \<open>float_eq x y\<close> is \<^verbatim>\<open>x == y\<close> on two floats and \<open>float_eq_int x n\<close> is
    \<^verbatim>\<open>x == n\<close> for a float and an integer;
  \<^item> \<open>float_nonzero x\<close> is the truth value of a float;
  \<^item> \<open>isDist v\<close> is \<^verbatim>\<open>utils.isDist(v)\<close>.
\<close>

record 'f builtins =
  float_of_int :: "int \<Rightarrow> 'f option"
  float_of_str :: "string \<Rightarrow> 'f option"
  str_of_float :: "'f \<Rightarrow> string"
  float_eq :: "'f \<Rightarrow> 'f \<Rightarrow> bool"
  float_eq_int :: "'f \<Rightarrow> int \<Rightarrow> bool"
  float_nonzero :: "'f \<Rightarrow> bool"
  isDist :: "'f pyval \<Rightarrow> bool"

subsection \<open>String methods\<close>

text \<open>\<^verbatim>\<open>str.strip()\<close> removes leading and trailing whitespace: space, tab, line feed,
  vertical tab, form feed and carriage return.\<close>

definition isspace :: "char \<Rightarrow> bool" where
  "isspace c = (c \<in> {CHR '' '', CHR 0x09, CHR 0x0A, CHR 0x0B, CHR 0x0C, CHR 0x0D})"

definition strip :: "string \<Rightarrow> string" where
  "strip s = rev (dropWhile isspace (rev (dropWhile isspace s)))"

text \<open>\<^verbatim>\<open>str.lower()\<close> maps the letters A to Z to a to z and leaves every other byte.\<close>

definition lower_char :: "char \<Rightarrow> char" where
  "lower_char c =
     (case map_of (zip ''ABCDEFGHIJKLMNOPQRSTUVWXYZ'' ''abcdefghijklmnopqrstuvwxyz'') c of
        Some d \<Rightarrow> d
      | None \<Rightarrow> c)"

definition lower :: "string \<Rightarrow> string" where
  "lower s = map lower_char s"

subsection \<open>Integers and text\<close>

definition digit_char :: "nat \<Rightarrow> char" where
  "digit_char d = ''0123456789'' ! d"

definition is_digit :: "char \<Rightarrow> bool" where
  "is_digit c = (c \<in> set ''0123456789'')"

definition digit_val :: "char \<Rightarrow> nat" where
  "digit_val c = (case map_of (zip ''0123456789'' [0, 1, 2, 3, 4, 5, 6, 7, 8, 9]) c of
                    Some d \<Rightarrow> d
                  | None \<Rightarrow> 0)"

fun str_nat :: "nat \<Rightarrow> string" where
  "str_nat n = (if n < 10 then [digit_char n]
                else str_nat (n div 10) @ [digit_char (n mod 10)])"

declare str_nat.simps [simp del]

text \<open>\<^verbatim>\<open>str(n)\<close> for an integer: the decimal digits, after a minus sign when negative.\<close>

definition str_int :: "int \<Rightarrow> string" where
  "str_int n = (if n < 0 then CHR ''-'' # str_nat (nat (- n)) else str_nat (nat n))"

definition nat_of_digits :: "string \<Rightarrow> nat" where
  "nat_of_digits ds = foldl (\<lambda>a c. 10 * a + digit_val c) 0 ds"

text \<open>\<^verbatim>\<open>int(text)\<close> for a string: surrounding whitespace is dropped, one sign is
  allowed, and at least one digit and nothing but digits must follow. \<open>None\<close> stands
  for \<^verbatim>\<open>ValueError\<close>.\<close>

definition int_of_str :: "string \<Rightarrow> int option" where
  "int_of_str s =
     (let t = strip s;
          neg = (t \<noteq> [] \<and> hd t = CHR ''-'');
          ds = (if t \<noteq> [] \<and> (hd t = CHR ''-'' \<or> hd t = CHR ''+'') then tl t else t)
      in if ds \<noteq> [] \<and> list_all is_digit ds
         then Some (if neg then - int (nat_of_digits ds) else int (nat_of_digits ds))
         else None)"

subsection \<open>Truth, equality, membership, \<^verbatim>\<open>str\<close>\<close>

text \<open>\<^verbatim>\<open>bool(v)\<close>, also the test of \<^verbatim>\<open>if v:\<close>.\<close>

fun py_bool :: "'f builtins \<Rightarrow> 'f pyval \<Rightarrow> bool" where
  "py_bool B PNone = False"
| "py_bool B (PBool b) = b"
| "py_bool B (PInt n) = (n \<noteq> 0)"
| "py_bool B (PFloat x) = float_nonzero B x"
| "py_bool B (PStr s) = (s \<noteq> [])"

text \<open>\<^verbatim>\<open>a == b\<close>: numbers compare by value across \<^verbatim>\<open>bool\<close>, \<^verbatim>\<open>int\<close> and
  \<^verbatim>\<open>float\<close> (\<^verbatim>\<open>True == 1\<close>), strings by their bytes, and values of unrelated types are
  unequal.\<close>

fun py_eq :: "'f builtins \<Rightarrow> 'f pyval \<Rightarrow> 'f pyval \<Rightarrow> bool" where
  "py_eq B PNone PNone = True"
| "py_eq B (PBool a) (PBool b) = (a = b)"
| "py_eq B (PBool a) (PInt n) = ((if a then 1 else 0) = n)"
| "py_eq B (PInt n) (PBool a) = (n = (if a then 1 else 0))"
| "py_eq B (PInt m) (PInt n) = (m = n)"
| "py_eq B (PFloat x) (PBool a) = float_eq_int B x (if a then 1 else 0)"
| "py_eq B (PBool a) (PFloat x) = float_eq_int B x (if a then 1 else 0)"
| "py_eq B (PFloat x) (PInt n) = float_eq_int B x n"
| "py_eq B (PInt n) (PFloat x) = float_eq_int B x n"
| "py_eq B (PFloat x) (PFloat y) = float_eq B x y"
| "py_eq B (PStr s) (PStr t) = (s = t)"
| "py_eq B _ _ = False"

text \<open>\<^verbatim>\<open>v in xs\<close> for a list or tuple: some element equals \<open>v\<close>.\<close>

fun py_in :: "'f builtins \<Rightarrow> 'f pyval \<Rightarrow> 'f pyval list \<Rightarrow> bool" where
  "py_in B v [] = False"
| "py_in B v (e # es) = (py_eq B v e \<or> py_in B v es)"

text \<open>\<^verbatim>\<open>str(v)\<close>.\<close>

fun py_str :: "'f builtins \<Rightarrow> 'f pyval \<Rightarrow> string" where
  "py_str B PNone = ''None''"
| "py_str B (PBool b) = (if b then ''True'' else ''False'')"
| "py_str B (PInt n) = str_int n"
| "py_str B (PFloat x) = str_of_float B x"
| "py_str B (PStr s) = s"

section \<open>The class \<^verbatim>\<open>Setting\<close> and its subclasses\<close>

text \<open>
  The nine concrete classes. The method called on an object is the one of its class, so
  the class is a field of the object and each overridden method dispatches on it.
  (\<open>IntSetting\<close> is the class \<^verbatim>\<open>Int\<close>, whose name HOL already uses.)
\<close>

datatype variant =
  Str | Bool | IntSetting | Float | FloatOrAuto | IntOrAuto | Distance | Choice | ChoiceOrMore

text \<open>
  An observer is a callable registered with \<^verbatim>\<open>setOnModified\<close>. It is identified by a
  number, and calling it is recorded as the pair of the observer and its argument. The
  model takes a callback to return normally and not to touch the setting it observes.
\<close>

type_synonym observer = nat

type_synonym 'f call = "observer \<times> 'f pyval"

text \<open>
  The attributes of an instance. \<open>val\<close> is \<open>None\<close> as long as the attribute has not
  been assigned, which is the case only inside \<^verbatim>\<open>__init__\<close>, before its call of
  \<^verbatim>\<open>set\<close>. \<open>vallist\<close> and \<open>images\<close> are the additional attributes of
  \<^verbatim>\<open>Choice\<close> and \<^verbatim>\<open>ChoiceOrMore\<close>; the other classes have no such attributes and
  none of their methods reads them, and the record holds empty lists there.
\<close>

record 'f setting =
  kind :: variant
  name :: string
  descr :: string
  default :: "'f pyval"
  onmodified :: "observer list"
  val :: "'f pyval option"
  vallist :: "'f pyval list"
  images :: "('f pyval \<times> 'f pyval) list"

subsection \<open>\<^verbatim>\<open>convertTo\<close>\<close>

definition Str_convertTo :: "'f pyval \<Rightarrow> error + 'f pyval" where
  "Str_convertTo v = (case v of PStr s \<Rightarrow> Inr v | _ \<Rightarrow> Inl InvalidType)"

definition Bool_convertTo :: "'f builtins \<Rightarrow> 'f pyval \<Rightarrow> error + 'f pyval" where
  "Bool_convertTo B v =
     (case v of
        PBool b \<Rightarrow> Inr (PBool (py_bool B v))
      | PInt n \<Rightarrow> Inr (PBool (py_bool B v))
      | _ \<Rightarrow> Inl InvalidType)"

definition Int_convertTo :: "'f pyval \<Rightarrow> error + 'f pyval" where
  "Int_convertTo v = (case v of PInt n \<Rightarrow> Inr v | _ \<Rightarrow> Inl InvalidType)"

definition Float_convertTo :: "'f builtins \<Rightarrow> 'f pyval \<Rightarrow> error + 'f pyval" where
  "Float_convertTo B v =
     (case v of
        PFloat x \<Rightarrow> Inr (PFloat x)
      | PInt n \<Rightarrow> (case float_of_int B n of
                    Some x \<Rightarrow> Inr (PFloat x)
                  | None \<Rightarrow> Inl OverflowError)
      | _ \<Rightarrow> Inl InvalidType)"

definition FloatOrAuto_convertTo :: "'f builtins \<Rightarrow> 'f pyval \<Rightarrow> error + 'f pyval" where
  "FloatOrAuto_convertTo B v =
     (case v of
        PInt n \<Rightarrow> (case float_of_int B n of
                    Some x \<Rightarrow> Inr (PFloat x)
                  | None \<Rightarrow> Inl OverflowError)
      | PFloat x \<Rightarrow> Inr (PFloat x)
      | PStr s \<Rightarrow> if lower (strip s) = ''auto'' then Inr PNone else Inl InvalidType
      | _ \<Rightarrow> Inl InvalidType)"

definition IntOrAuto_convertTo :: "'f pyval \<Rightarrow> error + 'f pyval" where
  "IntOrAuto_convertTo v =
     (case v of
        PInt n \<Rightarrow> Inr v
      | PStr s \<Rightarrow> if lower (strip s) = ''auto'' then Inr PNone else Inl InvalidType
      | _ \<Rightarrow> Inl InvalidType)"

definition Distance_convertTo :: "'f builtins \<Rightarrow> 'f pyval \<Rightarrow> error + 'f pyval" where
  "Distance_convertTo B v = (if isDist B v then Inr v else Inl InvalidType)"

definition Choice_convertTo :: "'f builtins \<Rightarrow> 'f setting \<Rightarrow> 'f pyval \<Rightarrow> error + 'f pyval" where
  "Choice_convertTo B self v = (if py_in B v (vallist self) then Inr v else Inl InvalidType)"

definition ChoiceOrMore_convertTo :: "'f pyval \<Rightarrow> error + 'f pyval" where
  "ChoiceOrMore_convertTo v = Inr v"

definition convertTo :: "'f builtins \<Rightarrow> 'f setting \<Rightarrow> 'f pyval \<Rightarrow> error + 'f pyval" where
  "convertTo B self v =
     (case kind self of
        Str \<Rightarrow> Str_convertTo v
      | Bool \<Rightarrow> Bool_convertTo B v
      | IntSetting \<Rightarrow> Int_convertTo v
      | Float \<Rightarrow> Float_convertTo B v
      | FloatOrAuto \<Rightarrow> FloatOrAuto_convertTo B v
      | IntOrAuto \<Rightarrow> IntOrAuto_convertTo v
      | Distance \<Rightarrow> Distance_convertTo B v
      | Choice \<Rightarrow> Choice_convertTo B self v
      | ChoiceOrMore \<Rightarrow> ChoiceOrMore_convertTo v)"

subsection \<open>\<^verbatim>\<open>convertFrom\<close>\<close>

text \<open>\<^verbatim>\<open>Setting.convertFrom\<close> returns its argument; only the two classes with the
  \<^verbatim>\<open>None\<close> sentinel override it.\<close>

definition Setting_convertFrom :: "'f pyval \<Rightarrow> 'f pyval" where
  "Setting_convertFrom v = v"

definition FloatOrAuto_convertFrom :: "'f builtins \<Rightarrow> 'f pyval \<Rightarrow> 'f pyval" where
  "FloatOrAuto_convertFrom B v = (if py_eq B v PNone then PStr ''Auto'' else v)"

definition IntOrAuto_convertFrom :: "'f builtins \<Rightarrow> 'f pyval \<Rightarrow> 'f pyval" where
  "IntOrAuto_convertFrom B v = (if py_eq B v PNone then PStr ''Auto'' else v)"

definition convertFrom :: "'f builtins \<Rightarrow> 'f setting \<Rightarrow> 'f pyval \<Rightarrow> 'f pyval" where
  "convertFrom B self v =
     (case kind self of
        FloatOrAuto \<Rightarrow> FloatOrAuto_convertFrom B v
      | IntOrAuto \<Rightarrow> IntOrAuto_convertFrom B v
      | _ \<Rightarrow> Setting_convertFrom v)"

subsection \<open>\<^verbatim>\<open>toText\<close>\<close>

text \<open>Reading the attribute \<^verbatim>\<open>self.val\<close>.\<close>

definition attr_val :: "'f setting \<Rightarrow> error + 'f pyval" where
  "attr_val self = (case val self of None \<Rightarrow> Inl AttributeError | Some x \<Rightarrow> Inr x)"

definition Str_toText :: "'f setting \<Rightarrow> error + 'f pyval" where
  "Str_toText self = attr_val self"

definition Bool_toText :: "'f builtins \<Rightarrow> 'f setting \<Rightarrow> error + 'f pyval" where
  "Bool_toText B self =
     (case attr_val self of
        Inl e \<Rightarrow> Inl e
      | Inr x \<Rightarrow> if py_bool B x then Inr (PStr ''True'') else Inr (PStr ''False''))"

definition Int_toText :: "'f builtins \<Rightarrow> 'f setting \<Rightarrow> error + 'f pyval" where
  "Int_toText B self =
     (case attr_val self of Inl e \<Rightarrow> Inl e | Inr x \<Rightarrow> Inr (PStr (py_str B x)))"

definition Float_toText :: "'f builtins \<Rightarrow> 'f setting \<Rightarrow> error + 'f pyval" where
  "Float_toText B self =
     (case attr_val self of Inl e \<Rightarrow> Inl e | Inr x \<Rightarrow> Inr (PStr (py_str B x)))"

definition FloatOrAuto_toText :: "'f builtins \<Rightarrow> 'f setting \<Rightarrow> error + 'f pyval" where
  "FloatOrAuto_toText B self =
     (case attr_val self of
        Inl e \<Rightarrow> Inl e
      | Inr x \<Rightarrow> if py_eq B x PNone then Inr (PStr ''Auto'') else Inr (PStr (py_str B x)))"

definition IntOrAuto_toText :: "'f builtins \<Rightarrow> 'f setting \<Rightarrow> error + 'f pyval" where
  "IntOrAuto_toText B self =
     (case attr_val self of
        Inl e \<Rightarrow> Inl e
      | Inr x \<Rightarrow> if py_eq B x PNone then Inr (PStr ''Auto'') else Inr (PStr (py_str B x)))"

definition Distance_toText :: "'f setting \<Rightarrow> error + 'f pyval" where
  "Distance_toText self = attr_val self"

definition Choice_toText :: "'f setting \<Rightarrow> error + 'f pyval" where
  "Choice_toText self = attr_val self"

definition ChoiceOrMore_toText :: "'f setting \<Rightarrow> error + 'f pyval" where
  "ChoiceOrMore_toText self = attr_val self"

definition toText :: "'f builtins \<Rightarrow> 'f setting \<Rightarrow> error + 'f pyval" where
  "toText B self =
     (case kind self of
        Str \<Rightarrow> Str_toText self
      | Bool \<Rightarrow> Bool_toText B self
      | IntSetting \<Rightarrow> Int_toText B self
      | Float \<Rightarrow> Float_toText B self
      | FloatOrAuto \<Rightarrow> FloatOrAuto_toText B self
      | IntOrAuto \<Rightarrow> IntOrAuto_toText B self
      | Distance \<Rightarrow> Distance_toText self
      | Choice \<Rightarrow> Choice_toText self
      | ChoiceOrMore \<Rightarrow> ChoiceOrMore_toText self)"

subsection \<open>\<^verbatim>\<open>fromText\<close>\<close>

text \<open>\<^verbatim>\<open>fromText\<close> is given a text, so its argument is a string. It returns a value
  for the caller to hand to \<^verbatim>\<open>set\<close> and assigns nothing.\<close>

definition Str_fromText :: "string \<Rightarrow> error + 'f pyval" where
  "Str_fromText text = Inr (PStr text)"

definition Bool_fromText :: "string \<Rightarrow> error + 'f pyval" where
  "Bool_fromText text =
     (let t = lower (strip text)
      in if t \<in> set [''true'', ''1'', ''t'', ''y'', ''yes''] then Inr (PBool True)
         else if t \<in> set [''false'', ''0'', ''f'', ''n'', ''no''] then Inr (PBool False)
         else Inl InvalidType)"

definition Int_fromText :: "string \<Rightarrow> error + 'f pyval" where
  "Int_fromText text =
     (case int_of_str text of Some n \<Rightarrow> Inr (PInt n) | None \<Rightarrow> Inl InvalidType)"

definition Float_fromText :: "'f builtins \<Rightarrow> string \<Rightarrow> error + 'f pyval" where
  "Float_fromText B text =
     (case float_of_str B text of Some x \<Rightarrow> Inr (PFloat x) | None \<Rightarrow> Inl InvalidType)"

definition FloatOrAuto_fromText :: "'f builtins \<Rightarrow> string \<Rightarrow> error + 'f pyval" where
  "FloatOrAuto_fromText B text =
     (if lower (strip text) = ''auto'' then Inr (PStr ''Auto'')
      else case float_of_str B text of Some x \<Rightarrow> Inr (PFloat x) | None \<Rightarrow> Inl InvalidType)"

definition IntOrAuto_fromText :: "string \<Rightarrow> error + 'f pyval" where
  "IntOrAuto_fromText text =
     (if lower (strip text) = ''auto'' then Inr (PStr ''Auto'')
      else case int_of_str text of Some n \<Rightarrow> Inr (PInt n) | None \<Rightarrow> Inl InvalidType)"

definition Distance_fromText :: "'f builtins \<Rightarrow> string \<Rightarrow> error + 'f pyval" where
  "Distance_fromText B text =
     (if isDist B (PStr text) then Inr (PStr text) else Inl InvalidType)"

definition Choice_fromText :: "'f builtins \<Rightarrow> 'f setting \<Rightarrow> string \<Rightarrow> error + 'f pyval" where
  "Choice_fromText B self text =
     (if py_in B (PStr text) (vallist self) then Inr (PStr text) else Inl InvalidType)"

definition ChoiceOrMore_fromText :: "string \<Rightarrow> error + 'f pyval" where
  "ChoiceOrMore_fromText text = Inr (PStr text)"

definition fromText :: "'f builtins \<Rightarrow> 'f setting \<Rightarrow> string \<Rightarrow> error + 'f pyval" where
  "fromText B self text =
     (case kind self of
        Str \<Rightarrow> Str_fromText text
      | Bool \<Rightarrow> Bool_fromText text
      | IntSetting \<Rightarrow> Int_fromText text
      | Float \<Rightarrow> Float_fromText B text
      | FloatOrAuto \<Rightarrow> FloatOrAuto_fromText B text
      | IntOrAuto \<Rightarrow> IntOrAuto_fromText text
      | Distance \<Rightarrow> Distance_fromText B text
      | Choice \<Rightarrow> Choice_fromText B self text
      | ChoiceOrMore \<Rightarrow> ChoiceOrMore_fromText text)"

subsection \<open>The methods of \<^verbatim>\<open>Setting\<close>\<close>

text \<open>The loop of \<^verbatim>\<open>set\<close> over \<^verbatim>\<open>self.onmodified\<close>: each observer is called with
  \<^verbatim>\<open>True\<close>, in the order of the list.\<close>

fun notify :: "observer list \<Rightarrow> 'f call list" where
  "notify [] = []"
| "notify (i # rest) = (i, PBool True) # notify rest"

text \<open>
  A method that assigns attributes returns three things: how it ended (\<open>Inr ()\<close> on
  return, \<open>Inl e\<close> when \<open>e\<close> was raised), the object as the call left it, and the calls of
  observers it made, in order.
\<close>

type_synonym 'f effect = "(error + unit) \<times> 'f setting \<times> 'f call list"

definition Setting_set :: "'f builtins \<Rightarrow> 'f setting \<Rightarrow> 'f pyval \<Rightarrow> 'f effect" where
  "Setting_set B self v =
     (case convertTo B self v of
        Inl e \<Rightarrow> (Inl e, self, [])
      | Inr x \<Rightarrow> (Inr (), self\<lparr>val := Some x\<rparr>, notify (onmodified self)))"

definition Setting_get :: "'f builtins \<Rightarrow> 'f setting \<Rightarrow> error + 'f pyval" where
  "Setting_get B self =
     (case attr_val self of Inl e \<Rightarrow> Inl e | Inr x \<Rightarrow> Inr (convertFrom B self x))"

definition setOnModified :: "'f setting \<Rightarrow> observer \<Rightarrow> 'f setting" where
  "setOnModified self fn = self\<lparr>onmodified := onmodified self @ [fn]\<rparr>"

definition newDefault :: "'f builtins \<Rightarrow> 'f setting \<Rightarrow> 'f pyval \<Rightarrow> 'f effect" where
  "newDefault B self v = Setting_set B (self\<lparr>default := v\<rparr>) v"

definition isDefault :: "'f builtins \<Rightarrow> 'f setting \<Rightarrow> error + bool" where
  "isDefault B self =
     (case Setting_get B self of
        Inl e \<Rightarrow> Inl e
      | Inr g \<Rightarrow> Inr (py_eq B g (default self)))"

text \<open>
  \<^verbatim>\<open>Setting.__init__\<close> works on a new object of class \<open>k\<close>, which has no attributes
  yet except \<open>vallist\<close> and \<open>images\<close> where the constructor of the subclass has
  assigned them. It assigns the name, the description, the default and an empty observer
  list, then calls \<^verbatim>\<open>self.set(val)\<close>, which assigns \<open>val\<close>. When that raises, the
  constructor raises and there is no object.
\<close>

definition Setting_init ::
  "'f builtins \<Rightarrow> variant \<Rightarrow> 'f pyval list \<Rightarrow> ('f pyval \<times> 'f pyval) list
   \<Rightarrow> string \<Rightarrow> 'f pyval \<Rightarrow> string \<Rightarrow> error + 'f setting" where
  "Setting_init B k vl im nm v d =
     (case Setting_set B
             \<lparr>kind = k, name = nm, descr = d, default = v, onmodified = [], val = None,
              vallist = vl, images = im\<rparr> v of
        (Inl e, _, _) \<Rightarrow> Inl e
      | (Inr _, self', _) \<Rightarrow> Inr self')"

text \<open>\<^verbatim>\<open>Choice.__init__\<close> and \<^verbatim>\<open>ChoiceOrMore.__init__\<close> store the list of values
  and the images before they call \<^verbatim>\<open>Setting.__init__\<close>. (The assertion of
  \<^verbatim>\<open>Choice.__init__\<close> that \<^verbatim>\<open>vallist\<close> is a list or tuple holds of every list.)
  The other seven classes are constructed by \<^verbatim>\<open>Setting.__init__\<close> itself.\<close>

definition Choice_init ::
  "'f builtins \<Rightarrow> string \<Rightarrow> 'f pyval list \<Rightarrow> 'f pyval \<Rightarrow> ('f pyval \<times> 'f pyval) list \<Rightarrow> string
   \<Rightarrow> error + 'f setting" where
  "Choice_init B nm vl v im d = Setting_init B Choice vl im nm v d"

definition ChoiceOrMore_init ::
  "'f builtins \<Rightarrow> string \<Rightarrow> 'f pyval list \<Rightarrow> 'f pyval \<Rightarrow> ('f pyval \<times> 'f pyval) list \<Rightarrow> string
   \<Rightarrow> error + 'f setting" where
  "ChoiceOrMore_init B nm vl v im d = Setting_init B ChoiceOrMore vl im nm v d"

section \<open>An instance of the parameters\<close>

text \<open>
  To run the model on concrete inputs the parameters need values. \<open>whole_floats\<close>
  has only the floats with an integral value, each represented by that integer and
  printed as Python prints it (\<^verbatim>\<open>3.0\<close>); an integer of magnitude \<open>2 ^ 1024\<close> or more
  has no float, as with double precision; a distance is a number followed by a unit.
\<close>

definition whole_float_of_str :: "string \<Rightarrow> int option" where
  "whole_float_of_str s =
     (let t = strip s; n = length t
      in if 2 \<le> n \<and> drop (n - 2) t = ''.0'' then int_of_str (take (n - 2) t)
         else int_of_str t)"

definition unit_isDist :: "int pyval \<Rightarrow> bool" where
  "unit_isDist v =
     (case v of
        PStr s \<Rightarrow> takeWhile is_digit s \<noteq> []
                  \<and> dropWhile is_digit s \<in> set [''pt'', ''cm'', ''mm'', ''in'', ''%'']
      | _ \<Rightarrow> False)"

definition whole_floats :: "int builtins" where
  "whole_floats =
     \<lparr>float_of_int = (\<lambda>n. if \<bar>n\<bar> < 2 ^ 1024 then Some n else None),
      float_of_str = whole_float_of_str,
      str_of_float = (\<lambda>x. str_int x @ ''.0''),
      float_eq = (\<lambda>x y. x = y),
      float_eq_int = (\<lambda>x n. x = n),
      float_nonzero = (\<lambda>x. x \<noteq> 0),
      isDist = unit_isDist\<rparr>"

section \<open>Lemmas about the string functions\<close>

lemma isspace_lower_char: "isspace (lower_char c) = isspace c"
  by (simp add: isspace_def lower_char_def split: if_splits)

lemma strip_id: "s \<noteq> [] \<Longrightarrow> \<not> isspace (hd s) \<Longrightarrow> \<not> isspace (last s) \<Longrightarrow> strip s = s"
proof -
  assume a: "s \<noteq> []" "\<not> isspace (hd s)" "\<not> isspace (last s)"
  from a have 1: "dropWhile isspace s = s" by (cases s) auto
  from a have "hd (rev s) = last s" by (simp add: hd_rev)
  with a have 2: "dropWhile isspace (rev s) = rev s"
    by (simp add: dropWhile_eq_self_iff)
  show ?thesis by (simp add: strip_def 1 2)
qed

lemma strip_of_lower:
  assumes "lower s = w" "w \<noteq> []" "\<not> isspace (hd w)" "\<not> isspace (last w)"
  shows "strip s = s"
proof -
  from assms have ne: "s \<noteq> []" by (auto simp: lower_def)
  have "hd w = lower_char (hd s)" using assms ne by (auto simp: lower_def hd_map)
  moreover have "last w = lower_char (last s)" using assms ne by (auto simp: lower_def last_map)
  ultimately show ?thesis using assms ne by (intro strip_id) (simp_all add: isspace_lower_char)
qed

lemma lower_auto_strip: "lower t = ''auto'' \<Longrightarrow> lower (strip t) = ''auto''"
  using strip_of_lower[of t "''auto''"] by (simp add: isspace_def)

lemma digit_range: "d < 10 \<Longrightarrow> d \<in> {0, 1, 2, 3, 4, 5, 6, 7, 8, 9::nat}"
  by auto

lemma digit_val_digit_char: "d < 10 \<Longrightarrow> digit_val (digit_char d) = d"
  using digit_range[of d] by (auto simp: digit_val_def digit_char_def)

lemma is_digit_digit_char: "d < 10 \<Longrightarrow> is_digit (digit_char d)"
  using digit_range[of d] by (auto simp: is_digit_def digit_char_def)

lemma str_nat_digits: "list_all is_digit (str_nat n)"
proof (induction n rule: str_nat.induct)
  case (1 n)
  show ?case
  proof (cases "n < 10")
    case True then show ?thesis by (subst str_nat.simps) (simp add: is_digit_digit_char)
  next
    case False
    with 1 have "list_all is_digit (str_nat (n div 10))" by simp
    moreover have "is_digit (digit_char (n mod 10))" by (simp add: is_digit_digit_char)
    ultimately show ?thesis using False by (subst str_nat.simps) simp
  qed
qed

lemma str_nat_nonempty: "str_nat n \<noteq> []"
  by (subst str_nat.simps) simp

lemma nat_of_digits_snoc: "nat_of_digits (ds @ [c]) = 10 * nat_of_digits ds + digit_val c"
  by (simp add: nat_of_digits_def)

lemma nat_of_digits_str_nat: "nat_of_digits (str_nat n) = n"
proof (induction n rule: str_nat.induct)
  case (1 n)
  show ?case
  proof (cases "n < 10")
    case True then show ?thesis
      by (subst str_nat.simps) (simp add: nat_of_digits_def digit_val_digit_char)
  next
    case False
    with 1 have "nat_of_digits (str_nat (n div 10)) = n div 10" by simp
    then show ?thesis using False
      by (subst str_nat.simps) (simp add: nat_of_digits_snoc digit_val_digit_char)
  qed
qed

lemma is_digit_not_space: "is_digit c \<Longrightarrow> \<not> isspace c"
  by (auto simp: is_digit_def isspace_def)

lemma is_digit_lower: "is_digit c \<Longrightarrow> lower_char c = c"
  unfolding is_digit_def by (simp, elim disjE) (simp_all add: lower_char_def)

lemma is_digit_not_sign: "is_digit c \<Longrightarrow> c \<noteq> CHR ''-'' \<and> c \<noteq> CHR ''+''"
  by (auto simp: is_digit_def)

lemma str_nat_ends: "is_digit (hd (str_nat n)) \<and> is_digit (last (str_nat n))"
proof -
  have "list_all is_digit (str_nat n)" by (rule str_nat_digits)
  then have "\<forall>c \<in> set (str_nat n). is_digit c" by (simp add: list_all_iff)
  then show ?thesis using str_nat_nonempty[of n] by simp
qed

lemma strip_str_nat: "strip (str_nat n) = str_nat n"
  using str_nat_ends[of n] str_nat_nonempty[of n] by (intro strip_id) (simp_all add: is_digit_not_space)

lemma strip_str_int: "strip (str_int n) = str_int n"
proof (cases "n < 0")
  case True
  have "last (CHR ''-'' # str_nat (nat (- n))) = last (str_nat (nat (- n)))"
    using str_nat_nonempty by simp
  then have "\<not> isspace (last (str_int n))"
    using True str_nat_ends[of "nat (- n)"] by (simp add: str_int_def is_digit_not_space)
  moreover have "\<not> isspace (hd (str_int n))" using True by (simp add: str_int_def isspace_def)
  ultimately show ?thesis using True by (intro strip_id) (simp_all add: str_int_def)
next
  case False
  then show ?thesis by (simp add: str_int_def strip_str_nat)
qed

lemma int_of_str_str_int: "int_of_str (str_int n) = Some n"
proof (cases "n < 0")
  case True
  then have "str_int n = CHR ''-'' # str_nat (nat (- n))" by (simp add: str_int_def)
  then show ?thesis using True strip_str_int[of n]
    by (simp add: int_of_str_def Let_def str_nat_nonempty str_nat_digits nat_of_digits_str_nat)
next
  case False
  then have e: "str_int n = str_nat (nat n)" by (simp add: str_int_def)
  have "hd (str_nat (nat n)) \<noteq> CHR ''-'' \<and> hd (str_nat (nat n)) \<noteq> CHR ''+''"
    using str_nat_ends[of "nat n"] by (simp add: is_digit_not_sign)
  then show ?thesis using False strip_str_int[of n] e
    by (simp add: int_of_str_def Let_def str_nat_nonempty str_nat_digits nat_of_digits_str_nat)
qed

lemma lower_str_int_not_auto: "lower (strip (str_int n)) \<noteq> ''auto''"
proof
  assume a: "lower (strip (str_int n)) = ''auto''"
  then have l: "lower (str_int n) = ''auto''" by (simp add: strip_str_int)
  have ne: "str_int n \<noteq> []" by (simp add: str_int_def str_nat_nonempty)
  from l ne have h: "lower_char (hd (str_int n)) = CHR ''a''"
    by (cases "str_int n") (simp_all add: lower_def)
  show False
  proof (cases "n < 0")
    case True
    then have "hd (str_int n) = CHR ''-''" by (simp add: str_int_def)
    with h show False by (simp add: lower_char_def)
  next
    case False
    then have "is_digit (hd (str_int n))" using str_nat_ends[of "nat n"] by (simp add: str_int_def)
    then have "lower_char (hd (str_int n)) = hd (str_int n)" "is_digit (hd (str_int n))"
      by (simp_all add: is_digit_lower)
    with h have "is_digit (CHR ''a'')" by simp
    then show False by (simp add: is_digit_def)
  qed
qed

section \<open>Lemmas about the methods\<close>

lemmas convertTo_defs =
  convertTo_def Str_convertTo_def Bool_convertTo_def Int_convertTo_def Float_convertTo_def
  FloatOrAuto_convertTo_def IntOrAuto_convertTo_def Distance_convertTo_def
  Choice_convertTo_def ChoiceOrMore_convertTo_def

lemma convertTo_error_cases:
  "convertTo B self v = Inl e \<Longrightarrow>
     e = InvalidType
     \<or> e = OverflowError \<and> kind self \<in> {Float, FloatOrAuto}
        \<and> (\<exists>n. v = PInt n \<and> float_of_int B n = None)"
  by (cases "kind self"; cases v)
     (auto simp: convertTo_defs split: if_splits option.splits)

lemma convertTo_same_class:
  "kind s = kind self \<Longrightarrow> vallist s = vallist self \<Longrightarrow> convertTo B s v = convertTo B self v"
  by (simp add: convertTo_defs split: variant.splits)

lemma convertFrom_same_class:
  "kind s = kind self \<Longrightarrow> convertFrom B s v = convertFrom B self v"
  by (simp add: convertFrom_def)

lemma convertTo_ignores_observers [simp]:
  "convertTo B (self\<lparr>onmodified := fs\<rparr>) v = convertTo B self v"
  by (rule convertTo_same_class) simp_all

lemma convertTo_ignores_default [simp]:
  "convertTo B (self\<lparr>default := d\<rparr>) v = convertTo B self v"
  by (rule convertTo_same_class) simp_all

lemma Setting_get_ignores_default [simp]:
  "Setting_get B (self\<lparr>default := d\<rparr>) = Setting_get B self"
  by (simp add: Setting_get_def attr_val_def convertFrom_def split: option.splits)

lemma notify_map: "notify fs = map (\<lambda>fn. (fn, PBool True)) fs"
  by (induction fs) simp_all

lemma kind_register [simp]: "kind (foldl setOnModified self fns) = kind self"
  by (induction fns arbitrary: self) (simp_all add: setOnModified_def)

lemma vallist_register [simp]: "vallist (foldl setOnModified self fns) = vallist self"
  by (induction fns arbitrary: self) (simp_all add: setOnModified_def)

lemma onmodified_register: "onmodified (foldl setOnModified self fns) = onmodified self @ fns"
  by (induction fns arbitrary: self) (simp_all add: setOnModified_def)

lemma convertTo_register: "convertTo B (foldl setOnModified self fns) v = convertTo B self v"
  by (rule convertTo_same_class) simp_all

section \<open>\<^verbatim>\<open>set\<close>, observers and defaults\<close>

text \<open>
  Claim C1. In every class, when \<^verbatim>\<open>set(v)\<close> is called with a value that
  \<^verbatim>\<open>convertTo\<close> rejects, \<^verbatim>\<open>set\<close> raises \<^verbatim>\<open>InvalidType\<close>, the object is as it was
  (so \<^verbatim>\<open>self.val\<close> and \<^verbatim>\<open>get()\<close> are unchanged), and no observer is called.
  \<^verbatim>\<open>InvalidType\<close> is all that \<^verbatim>\<open>convertTo\<close> raises, but for the \<^verbatim>\<open>OverflowError\<close> of
  \<^verbatim>\<open>float\<close> on an integer too large for a float, in \<^verbatim>\<open>Float\<close> and
  \<^verbatim>\<open>FloatOrAuto\<close>; that leaves the object as it was and calls no observer either.
\<close>

theorem set_invalid_leaves_setting:
  assumes "convertTo B self v = Inl e"
  shows "Setting_set B self v = (Inl e, self, [])
       \<and> (e = InvalidType
          \<or> e = OverflowError \<and> kind self \<in> {Float, FloatOrAuto}
             \<and> (\<exists>n. v = PInt n \<and> float_of_int B n = None))
       \<and> val (fst (snd (Setting_set B self v))) = val self
       \<and> Setting_get B (fst (snd (Setting_set B self v))) = Setting_get B self"
proof -
  note cases = convertTo_error_cases[OF assms]
  have "Setting_set B self v = (Inl e, self, [])"
    using assms by (simp add: Setting_set_def)
  with cases show ?thesis by simp
qed

theorem set_invalid_leaves_setting_witness:
  "convertTo whole_floats
       \<lparr>kind = Str, name = ''title'', descr = [], default = PStr ''a'',
         onmodified = [3, 5], val = Some (PStr ''a''), vallist = [], images = []\<rparr>
       (PInt 4)
     = Inl InvalidType
   \<and> Setting_set whole_floats
       \<lparr>kind = Str, name = ''title'', descr = [], default = PStr ''a'',
         onmodified = [3, 5], val = Some (PStr ''a''), vallist = [], images = []\<rparr>
       (PInt 4)
     = (Inl InvalidType,
        \<lparr>kind = Str, name = ''title'', descr = [], default = PStr ''a'',
         onmodified = [3, 5], val = Some (PStr ''a''), vallist = [], images = []\<rparr>,
        [])"
proof -
  let ?s = "\<lparr>kind = Str, name = ''title'', descr = [], default = PStr ''a'',
         onmodified = [3, 5], val = Some (PStr ''a''), vallist = [], images = []\<rparr> :: int setting"
  have h: "convertTo whole_floats ?s (PInt 4) = Inl InvalidType"
    by (simp add: convertTo_def Str_convertTo_def)
  from conjunct1[OF set_invalid_leaves_setting[OF h]] h show ?thesis
    by (intro conjI)
qed

text \<open>
  Claim C2. In every class, a \<^verbatim>\<open>set(v)\<close> that \<^verbatim>\<open>convertTo\<close> accepts stores
  \<^verbatim>\<open>convertTo(v)\<close> and then calls every registered observer once, in the order of
  registration, each with \<^verbatim>\<open>True\<close>. Nothing is assumed about the value stored before,
  so this is also the case when the new value equals the old one. The observers
  \<open>fns\<close> are registered one after the other on a setting that may already have some.
\<close>

theorem set_valid_notifies_in_order:
  assumes "convertTo B self v = Inr x"
  shows "Setting_set B (foldl setOnModified self fns) v =
           (Inr (), (foldl setOnModified self fns)\<lparr>val := Some x\<rparr>,
            map (\<lambda>fn. (fn, PBool True)) (onmodified self @ fns))"
  using assms
  by (simp add: Setting_set_def convertTo_register onmodified_register notify_map)

theorem set_valid_notifies_in_order_witness:
  "convertTo whole_floats
       \<lparr>kind = Bool, name = ''grid'', descr = [], default = PBool True,
         onmodified = [3], val = Some (PBool True), vallist = [], images = []\<rparr>
       (PInt 2)
     = Inr (PBool True)
   \<and> Setting_set whole_floats
       (foldl setOnModified
          \<lparr>kind = Bool, name = ''grid'', descr = [], default = PBool True,
            onmodified = [3], val = Some (PBool True), vallist = [], images = []\<rparr>
          [7, 5])
       (PInt 2)
     = (Inr (),
        \<lparr>kind = Bool, name = ''grid'', descr = [], default = PBool True,
         onmodified = [3, 7, 5], val = Some (PBool True), vallist = [], images = []\<rparr>,
        [(3, PBool True), (7, PBool True), (5, PBool True)])"
proof -
  let ?s = "\<lparr>kind = Bool, name = ''grid'', descr = [], default = PBool True,
         onmodified = [3], val = Some (PBool True), vallist = [], images = []\<rparr> :: int setting"
  have h: "convertTo whole_floats ?s (PInt 2) = Inr (PBool True)"
    by (simp add: convertTo_def Bool_convertTo_def)
  from set_valid_notifies_in_order[OF h, of "[7, 5]"] h show ?thesis
    by (simp add: setOnModified_def)
qed

text \<open>
  Claim C10. When \<^verbatim>\<open>newDefault(x)\<close> is called with a value that \<^verbatim>\<open>convertTo\<close>
  rejects, \<^verbatim>\<open>InvalidType\<close> is raised after the default has been replaced: afterwards
  \<^verbatim>\<open>self.default\<close> is \<open>x\<close>, while \<^verbatim>\<open>self.val\<close> and \<^verbatim>\<open>get()\<close> are what they
  were. (The same holds of the one other exception \<^verbatim>\<open>convertTo\<close> can raise, the
  \<^verbatim>\<open>OverflowError\<close> of \<^verbatim>\<open>float\<close>.)
\<close>

theorem newDefault_invalid_keeps_new_default:
  assumes "convertTo B self v = Inl e"
  shows "newDefault B self v = (Inl e, self\<lparr>default := v\<rparr>, [])
       \<and> (e = InvalidType
          \<or> e = OverflowError \<and> kind self \<in> {Float, FloatOrAuto}
             \<and> (\<exists>n. v = PInt n \<and> float_of_int B n = None))
       \<and> default (fst (snd (newDefault B self v))) = v
       \<and> val (fst (snd (newDefault B self v))) = val self
       \<and> Setting_get B (fst (snd (newDefault B self v))) = Setting_get B self"
proof -
  note cases = convertTo_error_cases[OF assms]
  have "newDefault B self v = (Inl e, self\<lparr>default := v\<rparr>, [])"
    using assms by (simp add: newDefault_def Setting_set_def)
  with cases show ?thesis by simp
qed

theorem newDefault_invalid_keeps_new_default_witness:
  "convertTo whole_floats
       \<lparr>kind = IntSetting, name = ''width'', descr = [], default = PInt 1,
         onmodified = [], val = Some (PInt 1), vallist = [], images = []\<rparr>
       (PStr ''x'')
     = Inl InvalidType
   \<and> newDefault whole_floats
       \<lparr>kind = IntSetting, name = ''width'', descr = [], default = PInt 1,
         onmodified = [], val = Some (PInt 1), vallist = [], images = []\<rparr>
       (PStr ''x'')
     = (Inl InvalidType,
        \<lparr>kind = IntSetting, name = ''width'', descr = [], default = PStr ''x'',
         onmodified = [], val = Some (PInt 1), vallist = [], images = []\<rparr>,
        [])"
proof -
  let ?s = "\<lparr>kind = IntSetting, name = ''width'', descr = [], default = PInt 1,
         onmodified = [], val = Some (PInt 1), vallist = [], images = []\<rparr> :: int setting"
  have h: "convertTo whole_floats ?s (PStr ''x'') = Inl InvalidType"
    by (simp add: convertTo_def Int_convertTo_def)
  from conjunct1[OF newDefault_invalid_keeps_new_default[OF h]] h show ?thesis
    by simp
qed

section \<open>The classes one by one\<close>

text \<open>
  Claim C9. \<^verbatim>\<open>ChoiceOrMore\<close> rejects no text: for every string, \<^verbatim>\<open>set\<close> succeeds
  whether or not the string is in \<^verbatim>\<open>vallist\<close>, and \<^verbatim>\<open>fromText\<close> returns the string
  unchanged.
\<close>

theorem ChoiceOrMore_never_rejects_text:
  assumes "kind self = ChoiceOrMore"
  shows "Setting_set B self (PStr t) =
           (Inr (), self\<lparr>val := Some (PStr t)\<rparr>, notify (onmodified self))
       \<and> fromText B self t = Inr (PStr t)"
  using assms
  by (simp add: Setting_set_def convertTo_def ChoiceOrMore_convertTo_def fromText_def
      ChoiceOrMore_fromText_def)

theorem ChoiceOrMore_never_rejects_text_witness:
  "kind (\<lparr>kind = ChoiceOrMore, name = ''style'', descr = [], default = PStr ''a'',
          onmodified = [], val = Some (PStr ''a''), vallist = [PStr ''a'', PStr ''b''], images = []\<rparr>
          :: int setting)
     = ChoiceOrMore
   \<and> Setting_set whole_floats
       \<lparr>kind = ChoiceOrMore, name = ''style'', descr = [], default = PStr ''a'',
         onmodified = [], val = Some (PStr ''a''), vallist = [PStr ''a'', PStr ''b''], images = []\<rparr>
       (PStr ''c'')
     = (Inr (),
        \<lparr>kind = ChoiceOrMore, name = ''style'', descr = [], default = PStr ''a'',
         onmodified = [], val = Some (PStr ''c''), vallist = [PStr ''a'', PStr ''b''], images = []\<rparr>,
        [])
   \<and> fromText whole_floats
       \<lparr>kind = ChoiceOrMore, name = ''style'', descr = [], default = PStr ''a'',
         onmodified = [], val = Some (PStr ''a''), vallist = [PStr ''a'', PStr ''b''], images = []\<rparr>
       ''c''
     = Inr (PStr ''c'')"
proof -
  let ?s = "\<lparr>kind = ChoiceOrMore, name = ''style'', descr = [], default = PStr ''a'',
         onmodified = [], val = Some (PStr ''a''), vallist = [PStr ''a'', PStr ''b''], images = []\<rparr> :: int setting"
  have h: "kind ?s = ChoiceOrMore"
    by simp
  from ChoiceOrMore_never_rejects_text[OF h, of whole_floats "''c''"] h show ?thesis
    by simp
qed

lemma spelling_strip:
  assumes "lower text \<in> set [''true'', ''1'', ''t'', ''y'', ''yes'', ''false'', ''0'', ''f'', ''n'', ''no'']"
  shows "strip text = text"
proof -
  from assms have "lower text \<noteq> [] \<and> \<not> isspace (hd (lower text)) \<and> \<not> isspace (last (lower text))"
    by (auto simp: isspace_def)
  then show ?thesis using strip_of_lower[of "text" "lower text"] by simp
qed

lemma py_in_strings: "py_in B v (map PStr xs) = (\<exists>t \<in> set xs. v = PStr t)"
  by (induction xs) (cases v; auto)+

lemma whole_floats_small: "float_of_int whole_floats 3 = Some 3"
  by (simp add: whole_floats_def)

text \<open>
  Claim C5 says that after \<^verbatim>\<open>set\<close> of an integer \<^verbatim>\<open>FloatOrAuto\<close> has stored a
  float. \<^verbatim>\<open>FloatOrAuto.convertTo\<close> hands the integer to \<^verbatim>\<open>float\<close>, and an integer
  as large as \<open>10 ^ 400\<close> has no float: \<^verbatim>\<open>set\<close> does not return, and the stored value is
  the one from before.
\<close>

theorem FloatOrAuto_set_huge_int_counterexample:
  "fst (Setting_set whole_floats
          \<lparr>kind = FloatOrAuto, name = ''min'', descr = [], default = PFloat 2,
           onmodified = [], val = Some (PFloat 2), vallist = [], images = []\<rparr>
          (PInt (10 ^ 400)))
     \<noteq> Inr ()
   \<and> snd (Setting_set whole_floats
          \<lparr>kind = FloatOrAuto, name = ''min'', descr = [], default = PFloat 2,
           onmodified = [], val = Some (PFloat 2), vallist = [], images = []\<rparr>
          (PInt (10 ^ 400)))
     = (\<lparr>kind = FloatOrAuto, name = ''min'', descr = [], default = PFloat 2,
        onmodified = [], val = Some (PFloat 2), vallist = [], images = []\<rparr>,
        [])"
  by (simp add: Setting_set_def convertTo_def FloatOrAuto_convertTo_def whole_floats_def)

text \<open>
  Claim C5, amended. For \<^verbatim>\<open>FloatOrAuto\<close>: after \<^verbatim>\<open>set\<close> of any spelling of
  \<^verbatim>\<open>auto\<close> in upper or lower case letters, \<^verbatim>\<open>get()\<close> returns the string \<^verbatim>\<open>Auto\<close>
  and so does \<^verbatim>\<open>toText()\<close>; after \<^verbatim>\<open>set\<close> of a float, or of an integer that
  \<^verbatim>\<open>float\<close> converts, the stored value is that float and \<^verbatim>\<open>get()\<close> returns it.
\<close>

theorem FloatOrAuto_set_then_get:
  assumes "kind self = FloatOrAuto" and "float_of_int B n = Some y"
  shows "(lower t = ''auto'' \<longrightarrow>
            Setting_set B self (PStr t) = (Inr (), self\<lparr>val := Some PNone\<rparr>, notify (onmodified self))
          \<and> Setting_get B (self\<lparr>val := Some PNone\<rparr>) = Inr (PStr ''Auto'')
          \<and> toText B (self\<lparr>val := Some PNone\<rparr>) = Inr (PStr ''Auto''))
       \<and> Setting_set B self (PInt n) =
            (Inr (), self\<lparr>val := Some (PFloat y)\<rparr>, notify (onmodified self))
       \<and> Setting_get B (self\<lparr>val := Some (PFloat y)\<rparr>) = Inr (PFloat y)
       \<and> Setting_set B self (PFloat x) =
            (Inr (), self\<lparr>val := Some (PFloat x)\<rparr>, notify (onmodified self))
       \<and> Setting_get B (self\<lparr>val := Some (PFloat x)\<rparr>) = Inr (PFloat x)"
  using assms
  by (simp add: Setting_set_def convertTo_def FloatOrAuto_convertTo_def lower_auto_strip
      Setting_get_def attr_val_def convertFrom_def FloatOrAuto_convertFrom_def
      toText_def FloatOrAuto_toText_def)

theorem FloatOrAuto_set_then_get_witness:
  "kind (\<lparr>kind = FloatOrAuto, name = ''min'', descr = [], default = PFloat 2,
          onmodified = [], val = Some (PFloat 2), vallist = [], images = []\<rparr>
          :: int setting)
     = FloatOrAuto
   \<and> float_of_int whole_floats 3 = Some 3
   \<and> lower ''AuTo'' = ''auto''
   \<and> Setting_set whole_floats
       \<lparr>kind = FloatOrAuto, name = ''min'', descr = [], default = PFloat 2,
         onmodified = [], val = Some (PFloat 2), vallist = [], images = []\<rparr>
       (PStr ''AuTo'')
     = (Inr (),
        \<lparr>kind = FloatOrAuto, name = ''min'', descr = [], default = PFloat 2,
         onmodified = [], val = Some PNone, vallist = [], images = []\<rparr>,
        [])
   \<and> Setting_get whole_floats
       \<lparr>kind = FloatOrAuto, name = ''min'', descr = [], default = PFloat 2,
         onmodified = [], val = Some PNone, vallist = [], images = []\<rparr>
     = Inr (PStr ''Auto'')
   \<and> toText whole_floats
       \<lparr>kind = FloatOrAuto, name = ''min'', descr = [], default = PFloat 2,
         onmodified = [], val = Some PNone, vallist = [], images = []\<rparr>
     = Inr (PStr ''Auto'')
   \<and> Setting_set whole_floats
       \<lparr>kind = FloatOrAuto, name = ''min'', descr = [], default = PFloat 2,
         onmodified = [], val = Some (PFloat 2), vallist = [], images = []\<rparr>
       (PInt 3)
     = (Inr (),
        \<lparr>kind = FloatOrAuto, name = ''min'', descr = [], default = PFloat 2,
         onmodified = [], val = Some (PFloat 3), vallist = [], images = []\<rparr>,
        [])
   \<and> Setting_get whole_floats
       \<lparr>kind = FloatOrAuto, name = ''min'', descr = [], default = PFloat 2,
         onmodified = [], val = Some (PFloat 3), vallist = [], images = []\<rparr>
     = Inr (PFloat 3)
   \<and> Setting_set whole_floats
       \<lparr>kind = FloatOrAuto, name = ''min'', descr = [], default = PFloat 2,
         onmodified = [], val = Some (PFloat 2), vallist = [], images = []\<rparr>
       (PFloat 5)
     = (Inr (),
        \<lparr>kind = FloatOrAuto, name = ''min'', descr = [], default = PFloat 2,
         onmodified = [], val = Some (PFloat 5), vallist = [], images = []\<rparr>,
        [])"
proof -
  let ?s = "\<lparr>kind = FloatOrAuto, name = ''min'', descr = [], default = PFloat 2,
         onmodified = [], val = Some (PFloat 2), vallist = [], images = []\<rparr> :: int setting"
  have h: "kind ?s = FloatOrAuto"
    by simp
  have l: "lower ''AuTo'' = ''auto''"
    by (simp add: lower_def lower_char_def)
  from FloatOrAuto_set_then_get[OF h whole_floats_small, of "''AuTo''" 5] h l whole_floats_small
  show ?thesis by simp
qed

text \<open>
  Claim C6 says that \<^verbatim>\<open>Bool.set\<close> accepts the booleans and the integers 0 and 1 and
  nothing else. \<^verbatim>\<open>Bool.convertTo\<close> tests the type only, so every integer is accepted:
  \<^verbatim>\<open>set(2)\<close> stores \<^verbatim>\<open>True\<close>.
\<close>

theorem Bool_set_accepts_two_counterexample:
  "PInt 2 \<notin> {PBool True, PBool False, PInt 0, PInt 1}
   \<and> Setting_set whole_floats
       \<lparr>kind = Bool, name = ''grid'', descr = [], default = PBool False,
         onmodified = [], val = Some (PBool False), vallist = [], images = []\<rparr>
       (PInt 2)
     = (Inr (),
        \<lparr>kind = Bool, name = ''grid'', descr = [], default = PBool False,
         onmodified = [], val = Some (PBool True), vallist = [], images = []\<rparr>,
        [])"
  by (simp add: Setting_set_def convertTo_def Bool_convertTo_def)

text \<open>
  Claim C6, amended. \<^verbatim>\<open>Bool.set\<close> accepts exactly the booleans and the integers: a
  boolean is stored as it is, an integer as \<^verbatim>\<open>True\<close> when it is not zero and as
  \<^verbatim>\<open>False\<close> when it is; every other value raises \<^verbatim>\<open>InvalidType\<close> and leaves the
  setting as it was.
\<close>

theorem Bool_set_accepts_every_int:
  assumes "kind self = Bool"
  shows "Setting_set B self v =
           (case v of
              PBool b \<Rightarrow> (Inr (), self\<lparr>val := Some (PBool b)\<rparr>, notify (onmodified self))
            | PInt n \<Rightarrow> (Inr (), self\<lparr>val := Some (PBool (n \<noteq> 0))\<rparr>, notify (onmodified self))
            | _ \<Rightarrow> (Inl InvalidType, self, []))"
  using assms
  by (cases v) (simp_all add: Setting_set_def convertTo_def Bool_convertTo_def)

theorem Bool_set_accepts_every_int_witness:
  "kind (\<lparr>kind = Bool, name = ''grid'', descr = [], default = PBool False,
          onmodified = [], val = Some (PBool False), vallist = [], images = []\<rparr>
          :: int setting)
     = Bool
   \<and> Setting_set whole_floats
       \<lparr>kind = Bool, name = ''grid'', descr = [], default = PBool False,
         onmodified = [], val = Some (PBool False), vallist = [], images = []\<rparr>
       (PStr ''1'')
     = (Inl InvalidType,
        \<lparr>kind = Bool, name = ''grid'', descr = [], default = PBool False,
         onmodified = [], val = Some (PBool False), vallist = [], images = []\<rparr>,
        [])"
proof -
  let ?s = "\<lparr>kind = Bool, name = ''grid'', descr = [], default = PBool False,
         onmodified = [], val = Some (PBool False), vallist = [], images = []\<rparr> :: int setting"
  have h: "kind ?s = Bool"
    by simp
  from Bool_set_accepts_every_int[OF h, of whole_floats "PStr ''1''"] h show ?thesis
    by simp
qed

text \<open>
  Claim C7 says that \<^verbatim>\<open>Bool.fromText\<close> raises for every text that is not one of the
  ten words in some mix of upper and lower case. The method strips whitespace first, so a
  padded word is accepted as well.
\<close>

theorem Bool_fromText_padded_counterexample:
  "lower '' yes'' \<notin> {''true'', ''1'', ''t'', ''y'', ''yes'', ''false'', ''0'', ''f'', ''n'', ''no''}
   \<and> fromText whole_floats
       \<lparr>kind = Bool, name = ''grid'', descr = [], default = PBool False,
         onmodified = [], val = Some (PBool False), vallist = [], images = []\<rparr>
       '' yes''
     = Inr (PBool True)"
  by (simp add: fromText_def Bool_fromText_def lower_def lower_char_def strip_def isspace_def)

text \<open>
  Claim C7, amended. \<^verbatim>\<open>Bool.fromText\<close> returns \<^verbatim>\<open>True\<close> for every spelling of
  true, 1, t, y, yes in upper or lower case letters and \<^verbatim>\<open>False\<close> for every such
  spelling of false, 0, f, n, no; the same holds when the word is surrounded by
  whitespace; and it raises \<^verbatim>\<open>InvalidType\<close> for every text that, with the surrounding
  whitespace removed, is none of these.
\<close>

theorem Bool_fromText_spellings:
  assumes "kind self = Bool"
  shows "(lower text \<in> {''true'', ''1'', ''t'', ''y'', ''yes''}
            \<longrightarrow> fromText B self text = Inr (PBool True))
       \<and> (lower text \<in> {''false'', ''0'', ''f'', ''n'', ''no''}
            \<longrightarrow> fromText B self text = Inr (PBool False))
       \<and> (lower (strip text) \<in> {''true'', ''1'', ''t'', ''y'', ''yes''}
            \<longrightarrow> fromText B self text = Inr (PBool True))
       \<and> (lower (strip text) \<in> {''false'', ''0'', ''f'', ''n'', ''no''}
            \<longrightarrow> fromText B self text = Inr (PBool False))
       \<and> (lower (strip text) \<notin> {''true'', ''1'', ''t'', ''y'', ''yes'',
                                   ''false'', ''0'', ''f'', ''n'', ''no''}
            \<longrightarrow> fromText B self text = Inl InvalidType)"
proof -
  have f: "fromText B self text = Bool_fromText text"
    using assms by (simp add: fromText_def)
  have 1: "lower text \<in> {''true'', ''1'', ''t'', ''y'', ''yes''}
            \<longrightarrow> Bool_fromText text = (Inr (PBool True) :: error + 'a pyval)"
  proof
    assume a: "lower text \<in> {''true'', ''1'', ''t'', ''y'', ''yes''}"
    then have "strip text = text" by (intro spelling_strip) auto
    with a show "Bool_fromText text = (Inr (PBool True) :: error + 'a pyval)"
      by (simp add: Bool_fromText_def Let_def)
  qed
  have 2: "lower text \<in> {''false'', ''0'', ''f'', ''n'', ''no''}
            \<longrightarrow> Bool_fromText text = (Inr (PBool False) :: error + 'a pyval)"
  proof
    assume a: "lower text \<in> {''false'', ''0'', ''f'', ''n'', ''no''}"
    then have "strip text = text" by (intro spelling_strip) auto
    with a show "Bool_fromText text = (Inr (PBool False) :: error + 'a pyval)"
      by (auto simp add: Bool_fromText_def Let_def)
  qed
  have 3: "lower (strip text) \<in> {''true'', ''1'', ''t'', ''y'', ''yes''}
            \<longrightarrow> Bool_fromText text = (Inr (PBool True) :: error + 'a pyval)"
    by (simp add: Bool_fromText_def Let_def)
  have 4: "lower (strip text) \<in> {''false'', ''0'', ''f'', ''n'', ''no''}
            \<longrightarrow> Bool_fromText text = (Inr (PBool False) :: error + 'a pyval)"
    by (auto simp add: Bool_fromText_def Let_def)
  have 5: "lower (strip text) \<notin> {''true'', ''1'', ''t'', ''y'', ''yes'',
                                   ''false'', ''0'', ''f'', ''n'', ''no''}
            \<longrightarrow> Bool_fromText text = (Inl InvalidType :: error + 'a pyval)"
    by (simp add: Bool_fromText_def Let_def)
  from 1 2 3 4 5 show ?thesis unfolding f by blast
qed

theorem Bool_fromText_spellings_witness:
  "kind (\<lparr>kind = Bool, name = ''grid'', descr = [], default = PBool False,
          onmodified = [], val = Some (PBool False), vallist = [], images = []\<rparr>
          :: int setting)
     = Bool
   \<and> lower ''YES'' \<in> {''true'', ''1'', ''t'', ''y'', ''yes''}
   \<and> fromText whole_floats
       \<lparr>kind = Bool, name = ''grid'', descr = [], default = PBool False,
         onmodified = [], val = Some (PBool False), vallist = [], images = []\<rparr>
       ''YES''
     = Inr (PBool True)
   \<and> lower ''0'' \<in> {''false'', ''0'', ''f'', ''n'', ''no''}
   \<and> fromText whole_floats
       \<lparr>kind = Bool, name = ''grid'', descr = [], default = PBool False,
         onmodified = [], val = Some (PBool False), vallist = [], images = []\<rparr>
       ''0''
     = Inr (PBool False)
   \<and> lower (strip ''maybe'') \<notin> {''true'', ''1'', ''t'', ''y'', ''yes'',
                                   ''false'', ''0'', ''f'', ''n'', ''no''}
   \<and> fromText whole_floats
       \<lparr>kind = Bool, name = ''grid'', descr = [], default = PBool False,
         onmodified = [], val = Some (PBool False), vallist = [], images = []\<rparr>
       ''maybe''
     = Inl InvalidType"
proof -
  let ?s = "\<lparr>kind = Bool, name = ''grid'', descr = [], default = PBool False,
         onmodified = [], val = Some (PBool False), vallist = [], images = []\<rparr> :: int setting"
  have h: "kind ?s = Bool"
    by simp
  have y: "lower ''YES'' \<in> {''true'', ''1'', ''t'', ''y'', ''yes''}"
    by (simp add: lower_def lower_char_def)
  have z: "lower ''0'' \<in> {''false'', ''0'', ''f'', ''n'', ''no''}"
    by (simp add: lower_def lower_char_def)
  have m: "lower (strip ''maybe'') \<notin> {''true'', ''1'', ''t'', ''y'', ''yes'',
                                   ''false'', ''0'', ''f'', ''n'', ''no''}"
    by (simp add: lower_def lower_char_def strip_def isspace_def)
  note yes = Bool_fromText_spellings[OF h, of "''YES''" whole_floats]
  note zero = Bool_fromText_spellings[OF h, of "''0''" whole_floats]
  note maybe = Bool_fromText_spellings[OF h, of "''maybe''" whole_floats]
  from conjunct1[OF yes] y
  have a: "fromText whole_floats ?s ''YES'' = Inr (PBool True)"
    by (rule mp)
  from conjunct1[OF conjunct2[OF zero]] z
  have b: "fromText whole_floats ?s ''0'' = Inr (PBool False)"
    by (rule mp)
  from conjunct2[OF conjunct2[OF conjunct2[OF conjunct2[OF maybe]]]] m
  have c: "fromText whole_floats ?s ''maybe'' = Inl InvalidType"
    by (rule mp)
  show ?thesis using h y a z b m c by (intro conjI)
qed

text \<open>
  Claim C8. For \<^verbatim>\<open>Choice\<close> with a list of strings, \<^verbatim>\<open>set(v)\<close> and
  \<^verbatim>\<open>fromText(v)\<close> succeed if and only if \<open>v\<close> is one of the strings of the list; for
  everything else both raise \<^verbatim>\<open>InvalidType\<close>, and the setting is as it was.
\<close>

theorem Choice_accepts_exactly_members:
  assumes "kind self = Choice" and "vallist self = map PStr allowed"
  shows "(t \<in> set allowed \<longrightarrow>
            Setting_set B self (PStr t) =
              (Inr (), self\<lparr>val := Some (PStr t)\<rparr>, notify (onmodified self))
          \<and> fromText B self t = Inr (PStr t))
       \<and> (t \<notin> set allowed \<longrightarrow>
            Setting_set B self (PStr t) = (Inl InvalidType, self, [])
          \<and> fromText B self t = Inl InvalidType)
       \<and> ((\<forall>u \<in> set allowed. v \<noteq> PStr u) \<longrightarrow>
            Setting_set B self v = (Inl InvalidType, self, []))"
  using assms
  by (auto simp add: Setting_set_def convertTo_def Choice_convertTo_def fromText_def
      Choice_fromText_def py_in_strings)

theorem Choice_accepts_exactly_members_witness:
  "kind (\<lparr>kind = Choice, name = ''style'', descr = [], default = PStr ''a'',
          onmodified = [], val = Some (PStr ''a''), vallist = [PStr ''a'', PStr ''b''], images = []\<rparr>
          :: int setting)
     = Choice
   \<and> vallist (\<lparr>kind = Choice, name = ''style'', descr = [], default = PStr ''a'',
             onmodified = [], val = Some (PStr ''a''), vallist = [PStr ''a'', PStr ''b''], images = []\<rparr>
          :: int setting)
     = map PStr [''a'', ''b'']
   \<and> Setting_set whole_floats
       \<lparr>kind = Choice, name = ''style'', descr = [], default = PStr ''a'',
         onmodified = [], val = Some (PStr ''a''), vallist = [PStr ''a'', PStr ''b''], images = []\<rparr>
       (PStr ''c'')
     = (Inl InvalidType,
        \<lparr>kind = Choice, name = ''style'', descr = [], default = PStr ''a'',
         onmodified = [], val = Some (PStr ''a''), vallist = [PStr ''a'', PStr ''b''], images = []\<rparr>,
        [])
   \<and> fromText whole_floats
       \<lparr>kind = Choice, name = ''style'', descr = [], default = PStr ''a'',
         onmodified = [], val = Some (PStr ''a''), vallist = [PStr ''a'', PStr ''b''], images = []\<rparr>
       ''b''
     = Inr (PStr ''b'')"
proof -
  let ?s = "\<lparr>kind = Choice, name = ''style'', descr = [], default = PStr ''a'',
         onmodified = [], val = Some (PStr ''a''), vallist = [PStr ''a'', PStr ''b''], images = []\<rparr> :: int setting"
  have h: "kind ?s = Choice"
    by simp
  have l: "vallist ?s = map PStr [''a'', ''b'']"
    by simp
  from Choice_accepts_exactly_members[OF h l, of "''c''" whole_floats]
       Choice_accepts_exactly_members[OF h l, of "''b''" whole_floats] h l
  show ?thesis by simp
qed

section \<open>Text and back, and the default\<close>

lemma lower_strip_True: "lower (strip ''True'') = ''true''"
  by (simp add: lower_def lower_char_def strip_def isspace_def)

lemma lower_strip_False: "lower (strip ''False'') = ''false''"
  by (simp add: lower_def lower_char_def strip_def isspace_def)

lemma lower_strip_Auto: "lower (strip ''Auto'') = ''auto''"
  by (simp add: lower_def lower_char_def strip_def isspace_def)

lemmas toText_defs =
  toText_def Str_toText_def Bool_toText_def Int_toText_def Float_toText_def
  FloatOrAuto_toText_def IntOrAuto_toText_def Distance_toText_def Choice_toText_def
  ChoiceOrMore_toText_def

lemmas fromText_defs =
  fromText_def Str_fromText_def Bool_fromText_def Int_fromText_def Float_fromText_def
  FloatOrAuto_fromText_def IntOrAuto_fromText_def Distance_fromText_def Choice_fromText_def
  ChoiceOrMore_fromText_def

lemmas get_defs =
  Setting_get_def attr_val_def convertFrom_def Setting_convertFrom_def
  FloatOrAuto_convertFrom_def IntOrAuto_convertFrom_def

lemma whole_floats_three: "float_of_str whole_floats (str_of_float whole_floats 3) = Some 3"
  by (simp add: whole_floats_def whole_float_of_str_def str_int_def str_nat.simps
      digit_char_def strip_def isspace_def int_of_str_def is_digit_def nat_of_digits_def
      digit_val_def Let_def)

lemma get_equals_given_value:
  assumes ok: "convertTo B self x = Inr v"
    and bool01: "kind self = Bool \<longrightarrow> (\<forall>n. x = PInt n \<longrightarrow> n = 0 \<or> n = 1)"
    and auto: "kind self \<in> {FloatOrAuto, IntOrAuto} \<longrightarrow> (\<forall>t. x = PStr t \<longrightarrow> t = ''Auto'')"
    and refl: "\<forall>y. x = PFloat y \<longrightarrow> float_eq B y y"
    and widen: "kind self \<in> {Float, FloatOrAuto} \<longrightarrow>
                  (\<forall>n y. x = PInt n \<longrightarrow> float_of_int B n = Some y \<longrightarrow> float_eq_int B y n)"
  shows "py_eq B (convertFrom B self v) x"
  using assms
  by (cases "kind self"; cases x)
     (auto simp add: convertTo_defs convertFrom_def Setting_convertFrom_def
        FloatOrAuto_convertFrom_def IntOrAuto_convertFrom_def split: if_splits option.splits)

text \<open>
  Claim C3 says that \<^verbatim>\<open>fromText(toText())\<close> returns a value equal to the stored
  one, in particular in the sentinel state of \<^verbatim>\<open>FloatOrAuto\<close> and \<^verbatim>\<open>IntOrAuto\<close>.
  In that state the stored value is \<^verbatim>\<open>None\<close>, \<^verbatim>\<open>toText()\<close> is \<^verbatim>\<open>Auto\<close>, and
  \<^verbatim>\<open>fromText\<close> of it returns the string \<^verbatim>\<open>Auto\<close>, which is not equal to \<^verbatim>\<open>None\<close>.
\<close>

theorem IntOrAuto_sentinel_counterexample:
  "convertTo whole_floats
       \<lparr>kind = IntOrAuto, name = ''ticks'', descr = [], default = PStr ''auto'',
         onmodified = [], val = Some PNone, vallist = [], images = []\<rparr>
       (PStr ''auto'')
     = Inr PNone
   \<and> val (\<lparr>kind = IntOrAuto, name = ''ticks'', descr = [], default = PStr ''auto'',
         onmodified = [], val = Some PNone, vallist = [], images = []\<rparr>
          :: int setting)
     = Some PNone
   \<and> toText whole_floats
       \<lparr>kind = IntOrAuto, name = ''ticks'', descr = [], default = PStr ''auto'',
         onmodified = [], val = Some PNone, vallist = [], images = []\<rparr>
     = Inr (PStr ''Auto'')
   \<and> fromText whole_floats
       \<lparr>kind = IntOrAuto, name = ''ticks'', descr = [], default = PStr ''auto'',
         onmodified = [], val = Some PNone, vallist = [], images = []\<rparr>
       ''Auto''
     = Inr (PStr ''Auto'')
   \<and> \<not> py_eq whole_floats (PStr ''Auto'') PNone"
  by (simp add: convertTo_def IntOrAuto_convertTo_def toText_def IntOrAuto_toText_def
      attr_val_def fromText_def IntOrAuto_fromText_def lower_strip_Auto
      lower_def lower_char_def strip_def isspace_def)

text \<open>
  Claim C3, amended. In every class, when the stored value \<open>v\<close> has been accepted by
  \<^verbatim>\<open>convertTo\<close> (and is a text in the three classes that store what they are given),
  \<^verbatim>\<open>toText()\<close> is a text and \<^verbatim>\<open>fromText\<close> of it returns what \<^verbatim>\<open>get()\<close> returns:
  \<open>v\<close> itself, except in the sentinel state of \<^verbatim>\<open>FloatOrAuto\<close> and \<^verbatim>\<open>IntOrAuto\<close>,
  where it is the string \<^verbatim>\<open>Auto\<close>. Handing that value to \<^verbatim>\<open>convertTo\<close> gives
  \<open>v\<close> again. For a stored float this needs \<^verbatim>\<open>float(str(v))\<close> to return \<open>v\<close>, and in
  \<^verbatim>\<open>FloatOrAuto\<close> \<^verbatim>\<open>str(v)\<close> not to read \<^verbatim>\<open>auto\<close>; both are about the
  interpreter's floats and are hypotheses here.
\<close>

theorem fromText_toText_returns_get:
  assumes accepted: "convertTo B self x = Inr v"
    and stored: "val self = Some v"
    and is_text: "kind self \<in> {Distance, Choice, ChoiceOrMore} \<longrightarrow> (\<exists>t. v = PStr t)"
    and float_text: "\<forall>y. v = PFloat y \<longrightarrow> float_of_str B (str_of_float B y) = Some y"
    and float_auto: "kind self = FloatOrAuto \<longrightarrow>
                       (\<forall>y. v = PFloat y \<longrightarrow> lower (strip (str_of_float B y)) \<noteq> ''auto'')"
  shows "\<exists>t g. toText B self = Inr (PStr t)
             \<and> fromText B self t = Inr g
             \<and> Setting_get B self = Inr g
             \<and> g = (if kind self \<in> {FloatOrAuto, IntOrAuto} \<and> v = PNone then PStr ''Auto'' else v)
             \<and> convertTo B self g = Inr v"
proof (cases "kind self")
  case Str
  then show ?thesis using accepted stored
    by (cases x) (auto simp add: convertTo_defs toText_defs fromText_defs get_defs)
next
  case Bool
  then show ?thesis using accepted stored
    by (cases x)
       (auto simp add: convertTo_defs toText_defs fromText_defs get_defs
          lower_strip_True lower_strip_False)
next
  case IntSetting
  then show ?thesis using accepted stored
    by (cases x)
       (auto simp add: convertTo_defs toText_defs fromText_defs get_defs int_of_str_str_int)
next
  case Float
  then show ?thesis using accepted stored float_text
    by (cases x)
       (auto simp add: convertTo_defs toText_defs fromText_defs get_defs split: option.splits)
next
  case FloatOrAuto
  then show ?thesis using accepted stored float_text float_auto
    by (cases x)
       (auto simp add: convertTo_defs toText_defs fromText_defs get_defs lower_strip_Auto
          split: if_splits option.splits)
next
  case IntOrAuto
  then show ?thesis using accepted stored
    by (cases x)
       (auto simp add: convertTo_defs toText_defs fromText_defs get_defs lower_strip_Auto
          int_of_str_str_int lower_str_int_not_auto split: if_splits)
next
  case Distance
  then show ?thesis using accepted stored is_text
    by (auto simp add: convertTo_defs toText_defs fromText_defs get_defs split: if_splits)
next
  case Choice
  then show ?thesis using accepted stored is_text
    by (auto simp add: convertTo_defs toText_defs fromText_defs get_defs split: if_splits)
next
  case ChoiceOrMore
  then show ?thesis using accepted stored is_text
    by (auto simp add: convertTo_defs toText_defs fromText_defs get_defs split: if_splits)
qed

theorem fromText_toText_returns_get_witness:
  "convertTo whole_floats
       \<lparr>kind = Float, name = ''width'', descr = [], default = PInt 3,
         onmodified = [], val = Some (PFloat 3), vallist = [], images = []\<rparr>
       (PInt 3)
     = Inr (PFloat 3)
   \<and> val (\<lparr>kind = Float, name = ''width'', descr = [], default = PInt 3,
         onmodified = [], val = Some (PFloat 3), vallist = [], images = []\<rparr>
          :: int setting)
     = Some (PFloat 3)
   \<and> float_of_str whole_floats (str_of_float whole_floats 3) = Some 3
   \<and> (\<exists>t g. toText whole_floats
               \<lparr>kind = Float, name = ''width'', descr = [], default = PInt 3,
                 onmodified = [], val = Some (PFloat 3), vallist = [], images = []\<rparr>
               = Inr (PStr t)
            \<and> fromText whole_floats
               \<lparr>kind = Float, name = ''width'', descr = [], default = PInt 3,
                 onmodified = [], val = Some (PFloat 3), vallist = [], images = []\<rparr>
               t
               = Inr g
            \<and> Setting_get whole_floats
               \<lparr>kind = Float, name = ''width'', descr = [], default = PInt 3,
                 onmodified = [], val = Some (PFloat 3), vallist = [], images = []\<rparr>
               = Inr g
            \<and> g = PFloat 3)"
proof -
  let ?s = "\<lparr>kind = Float, name = ''width'', descr = [], default = PInt 3,
         onmodified = [], val = Some (PFloat 3), vallist = [], images = []\<rparr> :: int setting"
  have a: "convertTo whole_floats ?s (PInt 3) = Inr (PFloat 3)"
    by (simp add: convertTo_def Float_convertTo_def whole_floats_small)
  have b: "val ?s = Some (PFloat 3)"
    by simp
  have k: "kind ?s = Float"
    by simp
  have c: "kind ?s \<in> {Distance, Choice, ChoiceOrMore} \<longrightarrow> (\<exists>t. PFloat (3::int) = PStr t)"
    by simp
  have d: "\<forall>y. PFloat (3::int) = PFloat y
             \<longrightarrow> float_of_str whole_floats (str_of_float whole_floats y) = Some y"
    by (simp add: whole_floats_three)
  have e: "kind ?s = FloatOrAuto \<longrightarrow>
             (\<forall>y. PFloat (3::int) = PFloat y
                \<longrightarrow> lower (strip (str_of_float whole_floats y)) \<noteq> ''auto'')"
    by simp
  from fromText_toText_returns_get[OF a b c d e] k
  have "\<exists>t g. toText whole_floats ?s = Inr (PStr t)
            \<and> fromText whole_floats ?s t = Inr g
            \<and> Setting_get whole_floats ?s = Inr g
            \<and> g = PFloat 3"
    by auto
  with a b whole_floats_three show ?thesis by (intro conjI)
qed

text \<open>
  Claim C4 says that \<^verbatim>\<open>isDefault()\<close> is true right after construction with any
  accepted value and right after \<^verbatim>\<open>newDefault(x)\<close> for any accepted \<open>x\<close>.
  \<^verbatim>\<open>self.default\<close> keeps the value as it was given, while \<^verbatim>\<open>get()\<close> returns the
  converted one: a \<^verbatim>\<open>FloatOrAuto\<close> made with \<^verbatim>\<open>auto\<close> in lower case has
  \<^verbatim>\<open>get()\<close> equal to \<^verbatim>\<open>Auto\<close>, and a \<^verbatim>\<open>Bool\<close> whose default is set to 2 has
  \<^verbatim>\<open>get()\<close> equal to \<^verbatim>\<open>True\<close>; in both \<^verbatim>\<open>isDefault()\<close> is false.
\<close>

theorem isDefault_false_after_construction_counterexample:
  "Setting_init whole_floats FloatOrAuto [] [] ''min'' (PStr ''auto'') []
     = Inr \<lparr>kind = FloatOrAuto, name = ''min'', descr = [], default = PStr ''auto'',
           onmodified = [], val = Some PNone, vallist = [], images = []\<rparr>
   \<and> Setting_get whole_floats
       \<lparr>kind = FloatOrAuto, name = ''min'', descr = [], default = PStr ''auto'',
         onmodified = [], val = Some PNone, vallist = [], images = []\<rparr>
     = Inr (PStr ''Auto'')
   \<and> isDefault whole_floats
       \<lparr>kind = FloatOrAuto, name = ''min'', descr = [], default = PStr ''auto'',
         onmodified = [], val = Some PNone, vallist = [], images = []\<rparr>
     = Inr False
   \<and> newDefault whole_floats
       \<lparr>kind = Bool, name = ''grid'', descr = [], default = PBool False,
         onmodified = [], val = Some (PBool False), vallist = [], images = []\<rparr>
       (PInt 2)
     = (Inr (),
        \<lparr>kind = Bool, name = ''grid'', descr = [], default = PInt 2,
         onmodified = [], val = Some (PBool True), vallist = [], images = []\<rparr>,
        [])
   \<and> isDefault whole_floats
       \<lparr>kind = Bool, name = ''grid'', descr = [], default = PInt 2,
         onmodified = [], val = Some (PBool True), vallist = [], images = []\<rparr>
     = Inr False"
  by (simp add: Setting_init_def Setting_set_def convertTo_def FloatOrAuto_convertTo_def
      Bool_convertTo_def newDefault_def isDefault_def Setting_get_def
      attr_val_def convertFrom_def FloatOrAuto_convertFrom_def Setting_convertFrom_def
      lower_def lower_char_def strip_def isspace_def)

text \<open>
  Claim C4, amended. In every class, \<^verbatim>\<open>isDefault()\<close> is true right after construction
  with an accepted value \<open>x\<close> and right after \<^verbatim>\<open>newDefault(x)\<close> for an accepted
  \<open>x\<close>, when \<open>x\<close> is written the way \<^verbatim>\<open>get()\<close> returns it: for \<^verbatim>\<open>Bool\<close> a boolean
  or one of the integers 0 and 1; for \<^verbatim>\<open>FloatOrAuto\<close> and \<^verbatim>\<open>IntOrAuto\<close> a number or
  the text \<^verbatim>\<open>Auto\<close> exactly; a float that equals itself; and, where an integer is
  widened to a float, an integer that the float still equals.
\<close>

theorem isDefault_after_init_and_newDefault:
  assumes ok: "convertTo B self x = Inr v"
    and bool01: "kind self = Bool \<longrightarrow> (\<forall>n. x = PInt n \<longrightarrow> n = 0 \<or> n = 1)"
    and auto: "kind self \<in> {FloatOrAuto, IntOrAuto} \<longrightarrow> (\<forall>t. x = PStr t \<longrightarrow> t = ''Auto'')"
    and refl: "\<forall>y. x = PFloat y \<longrightarrow> float_eq B y y"
    and widen: "kind self \<in> {Float, FloatOrAuto} \<longrightarrow>
                  (\<forall>n y. x = PInt n \<longrightarrow> float_of_int B n = Some y \<longrightarrow> float_eq_int B y n)"
  shows "(\<exists>self'. Setting_init B (kind self) (vallist self) (images self) nm x d = Inr self'
            \<and> val self' = Some v \<and> default self' = x
            \<and> isDefault B self' = Inr True)
       \<and> (\<exists>self' calls. newDefault B self x = (Inr (), self', calls)
            \<and> val self' = Some v \<and> default self' = x
            \<and> isDefault B self' = Inr True)"
proof -
  let ?new = "\<lparr>kind = kind self, name = nm, descr = d, default = x, onmodified = [],
              val = None, vallist = vallist self, images = images self\<rparr>"
  have eq: "py_eq B (convertFrom B self v) x"
    using assms by (rule get_equals_given_value)
  have ok': "convertTo B ?new x = Inr v"
    using ok convertTo_same_class[of ?new self B x] by simp
  have cf1: "convertFrom B (?new\<lparr>val := Some v\<rparr>) v = convertFrom B self v"
    by (rule convertFrom_same_class) simp
  have cf2: "convertFrom B (self\<lparr>default := x, val := Some v\<rparr>) v = convertFrom B self v"
    by (rule convertFrom_same_class) simp
  have 1: "Setting_init B (kind self) (vallist self) (images self) nm x d
             = Inr (?new\<lparr>val := Some v\<rparr>)"
    using ok' by (simp add: Setting_init_def Setting_set_def)
  have 2: "isDefault B (?new\<lparr>val := Some v\<rparr>) = Inr True"
    using eq cf1 by (simp add: isDefault_def Setting_get_def attr_val_def)
  have 3: "newDefault B self x = (Inr (), self\<lparr>default := x, val := Some v\<rparr>, notify (onmodified self))"
    using ok by (simp add: newDefault_def Setting_set_def)
  have 4: "isDefault B (self\<lparr>default := x, val := Some v\<rparr>) = Inr True"
    using eq cf2 by (simp add: isDefault_def Setting_get_def attr_val_def)
  from 1 2 have A: "\<exists>self'. Setting_init B (kind self) (vallist self) (images self) nm x d = Inr self'
            \<and> val self' = Some v \<and> default self' = x
            \<and> isDefault B self' = Inr True"
    by simp
  from 3 4 have C: "\<exists>self' calls. newDefault B self x = (Inr (), self', calls)
            \<and> val self' = Some v \<and> default self' = x
            \<and> isDefault B self' = Inr True"
    by simp
  from A C show ?thesis by (rule conjI)
qed

theorem isDefault_after_init_and_newDefault_witness:
  "convertTo whole_floats
       \<lparr>kind = FloatOrAuto, name = ''min'', descr = [], default = PFloat 2,
         onmodified = [3], val = Some (PFloat 2), vallist = [], images = []\<rparr>
       (PStr ''Auto'')
     = Inr PNone
   \<and> (\<exists>self'. Setting_init whole_floats FloatOrAuto [] [] ''max'' (PStr ''Auto'') [] = Inr self'
            \<and> val self' = Some PNone \<and> default self' = PStr ''Auto''
            \<and> isDefault whole_floats self' = Inr True)
   \<and> (\<exists>self' calls.
          newDefault whole_floats
            \<lparr>kind = FloatOrAuto, name = ''min'', descr = [], default = PFloat 2,
              onmodified = [3], val = Some (PFloat 2), vallist = [], images = []\<rparr>
            (PStr ''Auto'')
          = (Inr (), self', calls)
        \<and> val self' = Some PNone \<and> default self' = PStr ''Auto''
        \<and> isDefault whole_floats self' = Inr True)"
proof -
  let ?s = "\<lparr>kind = FloatOrAuto, name = ''min'', descr = [], default = PFloat 2,
         onmodified = [3], val = Some (PFloat 2), vallist = [], images = []\<rparr> :: int setting"
  have a: "convertTo whole_floats ?s (PStr ''Auto'') = Inr PNone"
    by (simp add: convertTo_def FloatOrAuto_convertTo_def lower_strip_Auto)
  have b: "kind ?s = Bool \<longrightarrow> (\<forall>n. (PStr ''Auto'' :: int pyval) = PInt n \<longrightarrow> n = 0 \<or> n = 1)"
    by simp
  have c: "kind ?s \<in> {FloatOrAuto, IntOrAuto}
             \<longrightarrow> (\<forall>t. (PStr ''Auto'' :: int pyval) = PStr t \<longrightarrow> t = ''Auto'')"
    by simp
  have d: "\<forall>y. (PStr ''Auto'' :: int pyval) = PFloat y \<longrightarrow> float_eq whole_floats y y"
    by simp
  have e: "kind ?s \<in> {Float, FloatOrAuto} \<longrightarrow>
             (\<forall>n y. (PStr ''Auto'' :: int pyval) = PInt n
                \<longrightarrow> float_of_int whole_floats n = Some y \<longrightarrow> float_eq_int whole_floats y n)"
    by simp
  note t = isDefault_after_init_and_newDefault[OF a b c d e, of "''max''" "[]"]
  from conjunct1[OF t]
  have i: "\<exists>self'. Setting_init whole_floats FloatOrAuto [] [] ''max'' (PStr ''Auto'') [] = Inr self'
            \<and> val self' = Some PNone \<and> default self' = PStr ''Auto''
            \<and> isDefault whole_floats self' = Inr True"
    by simp
  from a i conjunct2[OF t] show ?thesis by (intro conjI)
qed

end
